theory Spec2Isabelle
  imports Main "HOL-Library.Word" "HOL-Library.List_Lexorder" "HOL-Library.Sublist"
begin

section \<open>The Shop page of dd-webapp: product filtering and catalogue loading\<close>

text \<open>
  The development follows \<^verbatim>\<open>src/pages/Shop.tsx\<close>. The two memoised derivations of the
  component, \<^verbatim>\<open>availableSizes\<close> and \<^verbatim>\<open>filteredProducts\<close>, are pure functions of the
  product list, the search term and the selected size, and are embedded as HOL functions.
\<close>

subsection \<open>JavaScript strings\<close>

text \<open>
  A JavaScript string is a sequence of UTF-16 code units. The literals of the source are
  written with \<open>utf16\<close>, which gives the code units of a string of Latin-1 characters.
\<close>

type_synonym code_unit = "16 word"

type_synonym jsstring = "code_unit list"

definition utf16 :: "string \<Rightarrow> jsstring" where
  "utf16 s = map of_char s"

subsection \<open>Data model\<close>

text \<open>
  Modelled from the spec: the type declaration \<^verbatim>\<open>StockItem\<close> is imported from
  \<^verbatim>\<open>@/services/api\<close>, which is not part of the sources at hand. The fields are those
  that \<^verbatim>\<open>Shop.tsx\<close> reads; their types follow section 3 of the specification
  (\<^verbatim>\<open>brand\<close> optional, \<^verbatim>\<open>count\<close> an integer). The size label is the field
  \<^verbatim>\<open>size\<close> of the source.
\<close>

record SizeStock =
  size_label :: jsstring
  count :: int

record StockItem =
  sku :: int
  item_name :: jsstring
  color_code :: jsstring
  brand :: "jsstring option"
  sizes :: "SizeStock list"

subsection \<open>Lower-casing and search in strings\<close>

text \<open>
  \<^verbatim>\<open>String.prototype.toLowerCase\<close> applies the lower-case mappings of the Unicode
  character database, among them the one mapping that depends on the context: a capital
  sigma (U+03A3) becomes the final small sigma (U+03C2) when a cased letter stands before
  it, with nothing but case-ignorable characters between, and no cased letter stands
  after it in the same way; it becomes the small sigma (U+03C3) otherwise. The tables
  below are those of the character database for the code units U+0000 to U+00FF (Basic
  Latin and Latin-1 Supplement) and U+0391 to U+03C9 (the Greek letters): the capitals
  A to Z, U+00C0 to U+00D6, U+00D8 to U+00DE, U+0391 to U+03A1 and U+03A3 to U+03AB have
  their small letter 32 places above. Code units outside these two ranges are not
  tabulated: the functions leave them unchanged and take them for uncased, and no
  statement below that depends on the value of a lower-cased string is about them.
\<close>

definition has_lowercase :: "code_unit \<Rightarrow> bool" where
  "has_lowercase c =
     ((0x41 \<le> c \<and> c \<le> 0x5A) \<or> (0xC0 \<le> c \<and> c \<le> 0xD6) \<or> (0xD8 \<le> c \<and> c \<le> 0xDE) \<or>
      (0x391 \<le> c \<and> c \<le> 0x3A1) \<or> (0x3A3 \<le> c \<and> c \<le> 0x3AB))"

definition lower_unit :: "code_unit \<Rightarrow> code_unit" where
  "lower_unit c = (if has_lowercase c then c + 32 else c)"

definition cased :: "code_unit \<Rightarrow> bool" where
  "cased c =
     ((0x41 \<le> c \<and> c \<le> 0x5A) \<or> (0x61 \<le> c \<and> c \<le> 0x7A) \<or>
      c = 0xAA \<or> c = 0xB5 \<or> c = 0xBA \<or>
      (0xC0 \<le> c \<and> c \<le> 0xD6) \<or> (0xD8 \<le> c \<and> c \<le> 0xF6) \<or> (0xF8 \<le> c \<and> c \<le> 0xFF) \<or>
      (0x391 \<le> c \<and> c \<le> 0x3A1) \<or> (0x3A3 \<le> c \<and> c \<le> 0x3C9))"

definition case_ignorable :: "code_unit \<Rightarrow> bool" where
  "case_ignorable c =
     (c \<in> set [0x27, 0x2E, 0x3A, 0x5E, 0x60, 0xA8, 0xAD, 0xAF, 0xB4, 0xB7, 0xB8])"

text \<open>
  Whether the nearest code unit that is not case-ignorable is a cased letter; the units
  before a position are given nearest first.
\<close>

definition cased_next :: "jsstring \<Rightarrow> bool" where
  "cased_next us = (case dropWhile case_ignorable us of [] \<Rightarrow> False | c # _ \<Rightarrow> cased c)"

definition final_sigma :: "jsstring \<Rightarrow> jsstring \<Rightarrow> bool" where
  "final_sigma preceding following = (cased_next preceding \<and> \<not> cased_next following)"

fun lower_from :: "jsstring \<Rightarrow> jsstring \<Rightarrow> jsstring" where
  "lower_from preceding [] = []"
| "lower_from preceding (c # following) =
     (if c = 0x3A3 then (if final_sigma preceding following then 0x3C2 else 0x3C3)
      else lower_unit c)
       # lower_from (c # preceding) following"

definition toLowerCase :: "jsstring \<Rightarrow> jsstring" where
  "toLowerCase s = lower_from [] s"

text \<open>\<^verbatim>\<open>String.prototype.includes\<close>: a search for the needle at every position.\<close>

fun starts_with :: "jsstring \<Rightarrow> jsstring \<Rightarrow> bool" where
  "starts_with hay [] = True"
| "starts_with [] (c # needle) = False"
| "starts_with (h # hay) (c # needle) = (h = c \<and> starts_with hay needle)"

fun includes_str :: "jsstring \<Rightarrow> jsstring \<Rightarrow> bool" where
  "includes_str [] needle = (needle = [])"
| "includes_str (h # hay) needle = (starts_with (h # hay) needle \<or> includes_str hay needle)"

subsection \<open>JavaScript values\<close>

text \<open>
  The values that the filter callback computes with: \<^verbatim>\<open>a || b\<close> and \<^verbatim>\<open>a && b\<close> return
  one of their operands, chosen by the truthiness of the first, and
  \<^verbatim>\<open>Array.prototype.filter\<close> keeps an element when the callback's value is truthy.
\<close>

datatype jsval = JBool bool | JStr jsstring | JUndefined

fun truthy :: "jsval \<Rightarrow> bool" where
  "truthy (JBool b) = b"
| "truthy (JStr s) = (s \<noteq> [])"
| "truthy JUndefined = False"

definition js_or :: "jsval \<Rightarrow> jsval \<Rightarrow> jsval" where
  "js_or a b = (if truthy a then a else b)"

definition js_and :: "jsval \<Rightarrow> jsval \<Rightarrow> jsval" where
  "js_and a b = (if truthy a then b else a)"

fun of_optional :: "jsstring option \<Rightarrow> jsval" where
  "of_optional None = JUndefined"
| "of_optional (Some s) = JStr s"

subsection \<open>availableSizes\<close>

text \<open>
  A JavaScript \<^verbatim>\<open>Set\<close> keeps its elements in insertion order, and \<^verbatim>\<open>add\<close> of an
  element already present changes nothing. The two nested \<^verbatim>\<open>forEach\<close> loops are folds
  over the products and over the sizes of each product.
\<close>

definition set_add :: "jsstring list \<Rightarrow> jsstring \<Rightarrow> jsstring list" where
  "set_add acc x = (if x \<in> set acc then acc else acc @ [x])"

definition add_size :: "jsstring list \<Rightarrow> SizeStock \<Rightarrow> jsstring list" where
  "add_size acc sizeObj = (if count sizeObj > 0 then set_add acc (size_label sizeObj) else acc)"

definition add_product :: "jsstring list \<Rightarrow> StockItem \<Rightarrow> jsstring list" where
  "add_product acc product = foldl add_size acc (sizes product)"

definition collect_sizes :: "StockItem list \<Rightarrow> jsstring list" where
  "collect_sizes products = foldl add_product [] products"

text \<open>
  \<^verbatim>\<open>Array.prototype.sort\<close> without a comparator orders strings by their code units,
  lexicographically; that is the order of \<^typ>\<open>jsstring\<close> here. The argument is
  \<^const>\<open>None\<close> while the query has no data (\<^verbatim>\<open>products\<close> is \<^verbatim>\<open>undefined\<close>).
\<close>

definition availableSizes :: "StockItem list option \<Rightarrow> jsstring list" where
  "availableSizes products =
     (case products of
        None \<Rightarrow> []
      | Some ps \<Rightarrow> sort (collect_sizes ps))"

subsection \<open>filteredProducts\<close>

definition matchesSearch :: "jsstring \<Rightarrow> StockItem \<Rightarrow> jsval" where
  "matchesSearch searchTerm product =
     js_or (js_or (JBool (includes_str (toLowerCase (item_name product)) (toLowerCase searchTerm)))
                  (JBool (includes_str (toLowerCase (color_code product)) (toLowerCase searchTerm))))
           (js_and (of_optional (brand product))
                   (JBool (case brand product of
                             None \<Rightarrow> False
                           | Some b \<Rightarrow> includes_str (toLowerCase b) (toLowerCase searchTerm))))"

definition matchesSize :: "jsstring \<Rightarrow> StockItem \<Rightarrow> bool" where
  "matchesSize selectedSize product =
     (selectedSize = utf16 ''all'' \<or>
      list_ex (\<lambda>sizeObj. size_label sizeObj = selectedSize \<and> count sizeObj > 0) (sizes product))"

definition keeps :: "jsstring \<Rightarrow> jsstring \<Rightarrow> StockItem \<Rightarrow> bool" where
  "keeps searchTerm selectedSize product =
     truthy (js_and (matchesSearch searchTerm product) (JBool (matchesSize selectedSize product)))"

definition filteredProducts ::
  "StockItem list option \<Rightarrow> jsstring \<Rightarrow> jsstring \<Rightarrow> StockItem list" where
  "filteredProducts products searchTerm selectedSize =
     (case products of
        None \<Rightarrow> []
      | Some ps \<Rightarrow> filter (keeps searchTerm selectedSize) ps)"

subsection \<open>The filter rule in the specification's words\<close>






definition size_condition :: "jsstring \<Rightarrow> StockItem \<Rightarrow> bool" where
  "size_condition f p =
     (f = utf16 ''all'' \<or> (\<exists>e \<in> set (sizes p). size_label e = f \<and> count e > 0))"

text \<open>
  What the callback computes instead of the search condition: containment of the
  lower-cased term in the lower-cased text.
\<close>

definition contained_lowercased :: "jsstring \<Rightarrow> jsstring \<Rightarrow> bool" where
  "contained_lowercased s t = sublist (toLowerCase s) (toLowerCase t)"

definition lowercased_search_condition :: "jsstring \<Rightarrow> StockItem \<Rightarrow> bool" where
  "lowercased_search_condition s p =
     (contained_lowercased s (item_name p) \<or> contained_lowercased s (color_code p) \<or>
      (case brand p of None \<Rightarrow> False | Some b \<Rightarrow> contained_lowercased s b))"




definition in_stock_labels :: "StockItem list \<Rightarrow> jsstring set" where
  "in_stock_labels P = {size_label e | p e. p \<in> set P \<and> e \<in> set (sizes p) \<and> count e > 0}"

text \<open>The product of the scenario in section 8 of the specification.\<close>

definition scenario_product :: StockItem where
  "scenario_product =
     \<lparr>sku = 1, item_name = utf16 ''Red Shirt'', color_code = utf16 ''RED'', brand = None,
      sizes = [\<lparr>size_label = utf16 ''M'', count = 2\<rparr>, \<lparr>size_label = utf16 ''L'', count = 0\<rparr>]\<rparr>"

text \<open>
  A product whose name is the three Greek capitals alpha, sigma, alpha, and the search
  term alpha, sigma, which the name contains as it stands.
\<close>

definition sigma_product :: StockItem where
  "sigma_product =
     \<lparr>sku = 2, item_name = [0x391, 0x3A3, 0x391], color_code = utf16 ''BLUE'', brand = None,
      sizes = [\<lparr>size_label = utf16 ''M'', count = 1\<rparr>]\<rparr>"

definition sigma_term :: jsstring where
  "sigma_term = [0x391, 0x3A3]"

subsection \<open>The error toast\<close>

text \<open>
  A value that a failed fetch rejects with is an instance of \<^verbatim>\<open>Error\<close>, with its
  message, or some other value. The number is the identity of the value: the dependency
  comparison of \<^verbatim>\<open>useEffect\<close> is \<^verbatim>\<open>Object.is\<close>, under which two error objects
  are the same only when they are one object.
\<close>

datatype thrown = ErrorInstance nat string | NotAnError nat

text \<open>\<^verbatim>\<open>toast.error\<close> of the notification library, as a log of the messages shown.\<close>

definition toast_error :: "string \<Rightarrow> string list \<Rightarrow> string list" where
  "toast_error msg shown = shown @ [msg]"

text \<open>
  The body of the effect: \<^verbatim>\<open>if (isError && error instanceof Error) toast.error(...)\<close>.
  \<^const>\<open>None\<close> is the \<^verbatim>\<open>null\<close> error of a query that has not failed.
\<close>

fun error_effect :: "bool \<Rightarrow> thrown option \<Rightarrow> string list \<Rightarrow> string list" where
  "error_effect True (Some (ErrorInstance i msg)) shown = toast_error (''Shop error: '' @ msg) shown"
| "error_effect isError error shown = shown"

text \<open>
  What one mounted \<^verbatim>\<open>Shop\<close> component holds for the effect: the dependency values
  \<^verbatim>\<open>[isError, error]\<close> of the render in which the effect last ran (\<^const>\<open>None\<close>
  before the first render of a mount), beside the toasts shown so far. \<^verbatim>\<open>useEffect\<close>
  runs the body after the first render of a mounted component and after each render in
  which a dependency differs from the previous render's; unmounting discards the stored
  dependencies, so the first render of the next mount runs the body again.
\<close>

record ui =
  effect_deps :: "(bool \<times> thrown option) option"
  toasts :: "string list"

definition mount :: "string list \<Rightarrow> ui" where
  "mount shown = \<lparr>effect_deps = None, toasts = shown\<rparr>"

definition render :: "bool \<Rightarrow> thrown option \<Rightarrow> ui \<Rightarrow> ui" where
  "render isError error u =
     (if effect_deps u = Some (isError, error) then u
      else \<lparr>effect_deps = Some (isError, error),
            toasts = error_effect isError error (toasts u)\<rparr>)"

definition unmount :: "ui \<Rightarrow> ui" where
  "unmount u = mount (toasts u)"

subsection \<open>The query: configuration and fetch protocol\<close>

text \<open>The options passed to \<^verbatim>\<open>useQuery\<close>, in milliseconds.\<close>

definition staleTime :: nat where
  "staleTime = 5 * 60 * 1000"

definition retry :: nat where
  "retry = 1"

definition retryDelay :: nat where
  "retryDelay = 1000"

text \<open>
  Modelled from the spec: the store behind \<^verbatim>\<open>useQuery\<close> (the query library) and the
  fetch operation \<^verbatim>\<open>fetchProducts\<close> are not part of the sources at hand. The store
  follows section 4.1 of the specification: a snapshot with the time of the last
  successful fetch and a status; \<^verbatim>\<open>load\<close> returns a snapshot younger than the
  staleness threshold and fetches otherwise; a fetch that fails waits the retry delay and
  tries again, as often as \<^const>\<open>retry\<close> allows, and then ends in \<^verbatim>\<open>Error\<close>
  beside the snapshot it had. The external fetch operation is a script of attempts, each
  with the time it takes and its outcome; with an exhausted script the fetch stays in
  flight, in status \<^verbatim>\<open>Loading\<close>. The store records the start time of every attempt
  and counts the fetches it starts.
\<close>

datatype status = Idle | Loading | Success | Error

datatype outcome = Resolved "StockItem list" | Rejected thrown

record CatalogStore =
  snapshot :: "StockItem list option"
  fetchedAt :: nat
  status :: status
  failure :: "thrown option"
  clock :: nat
  network :: "(nat \<times> outcome) list"
  attempts :: "nat list"
  fetches :: nat

definition initial_store :: "(nat \<times> outcome) list \<Rightarrow> CatalogStore" where
  "initial_store script =
     \<lparr>snapshot = None, fetchedAt = 0, status = Idle, failure = None, clock = 0,
      network = script, attempts = [], fetches = 0\<rparr>"

definition wait :: "nat \<Rightarrow> CatalogStore \<Rightarrow> CatalogStore" where
  "wait d st = st\<lparr>clock := clock st + d\<rparr>"

definition attempt :: "nat \<Rightarrow> (nat \<times> outcome) list \<Rightarrow> CatalogStore \<Rightarrow> CatalogStore" where
  "attempt d rest st =
     st\<lparr>network := rest, attempts := attempts st @ [clock st], clock := clock st + d\<rparr>"

definition on_success :: "StockItem list \<Rightarrow> CatalogStore \<Rightarrow> CatalogStore" where
  "on_success ps st =
     st\<lparr>snapshot := Some ps, fetchedAt := clock st, status := Success, failure := None\<rparr>"

definition on_failure :: "thrown \<Rightarrow> CatalogStore \<Rightarrow> CatalogStore" where
  "on_failure e st = st\<lparr>status := Error, failure := Some e\<rparr>"

fun run_attempts :: "nat \<Rightarrow> CatalogStore \<Rightarrow> CatalogStore" where
  "run_attempts 0 st =
     (case network st of
        [] \<Rightarrow> st
      | (d, Resolved ps) # rest \<Rightarrow> on_success ps (attempt d rest st)
      | (d, Rejected e) # rest \<Rightarrow> on_failure e (attempt d rest st))"
| "run_attempts (Suc retries) st =
     (case network st of
        [] \<Rightarrow> st
      | (d, Resolved ps) # rest \<Rightarrow> on_success ps (attempt d rest st)
      | (d, Rejected e) # rest \<Rightarrow> run_attempts retries (wait retryDelay (attempt d rest st)))"

definition fetch :: "CatalogStore \<Rightarrow> CatalogStore" where
  "fetch st = run_attempts retry (st\<lparr>status := Loading, fetches := Suc (fetches st)\<rparr>)"

definition age :: "CatalogStore \<Rightarrow> nat" where
  "age st = clock st - fetchedAt st"

definition load :: "CatalogStore \<Rightarrow> CatalogStore" where
  "load st =
     (case snapshot st of
        None \<Rightarrow> fetch st
      | Some ps \<Rightarrow> if age st < staleTime then st else fetch st)"

definition refetch :: "CatalogStore \<Rightarrow> CatalogStore" where
  "refetch st = fetch st"

text \<open>
  What the component reads from the query: \<^verbatim>\<open>isError\<close> and \<^verbatim>\<open>error\<close>; a render
  of the component against the store passes them to the effect.
\<close>

definition isError :: "CatalogStore \<Rightarrow> bool" where
  "isError st = (status st = Error)"

definition render_store :: "CatalogStore \<Rightarrow> ui \<Rightarrow> ui" where
  "render_store st u = render (isError st) (failure st) u"

text \<open>
  Stores for the scenarios of section 8 of the specification: a fetch operation that
  answers two loads, one that fails once and then succeeds, one that fails twice with
  instances of \<^verbatim>\<open>Error\<close>, and one that fails twice with values that are not.
\<close>

definition two_catalogues :: CatalogStore where
  "two_catalogues = initial_store [(120, Resolved [scenario_product]), (80, Resolved [])]"

definition flaky_store :: CatalogStore where
  "flaky_store = initial_store [(30, Rejected (ErrorInstance 0 ''timeout'')),
     (50, Resolved [scenario_product])]"

definition offline_store :: CatalogStore where
  "offline_store = initial_store [(30, Rejected (ErrorInstance 0 ''timeout'')),
     (50, Rejected (ErrorInstance 1 ''offline''))]"

definition rejecting_store :: CatalogStore where
  "rejecting_store = initial_store [(30, Rejected (NotAnError 0)), (50, Rejected (NotAnError 1))]"

definition timeout_error :: thrown where
  "timeout_error = ErrorInstance 0 ''timeout''"

section \<open>Properties of the filter engine\<close>

lemma starts_with_prefix: "starts_with hay needle = prefix needle hay"
  by (induction hay needle rule: starts_with.induct) auto

lemma includes_str_sublist: "includes_str hay needle = sublist needle hay"
  by (induction hay) (auto simp: starts_with_prefix sublist_Cons_right)

lemma toLowerCase_Nil_iff: "toLowerCase s = [] \<longleftrightarrow> s = []"
  by (cases s) (simp_all add: toLowerCase_def)

lemma truthy_matchesSearch:
  "truthy (matchesSearch s p) =
     (includes_str (toLowerCase (item_name p)) (toLowerCase s) \<or>
      includes_str (toLowerCase (color_code p)) (toLowerCase s) \<or>
      (case brand p of None \<Rightarrow> False
       | Some b \<Rightarrow> b \<noteq> [] \<and> includes_str (toLowerCase b) (toLowerCase s)))"
  by (cases "brand p") (auto simp: matchesSearch_def js_or_def js_and_def)

text \<open>
  An empty brand is falsy, so the callback does not search it; it contains only the empty
  term, which every name contains.
\<close>

lemma matchesSearch_lowercased: "truthy (matchesSearch s p) = lowercased_search_condition s p"
proof (cases "brand p")
  case None
  then show ?thesis
    by (simp add: truthy_matchesSearch lowercased_search_condition_def contained_lowercased_def
        includes_str_sublist)
next
  case (Some b)
  show ?thesis
  proof (cases "b = []")
    case True
    have "sublist (toLowerCase s) (toLowerCase []) \<Longrightarrow> sublist (toLowerCase s) (toLowerCase (item_name p))"
      by (simp add: toLowerCase_def)
    with True Some show ?thesis
      by (auto simp: truthy_matchesSearch lowercased_search_condition_def
          contained_lowercased_def includes_str_sublist)
  next
    case False
    with Some show ?thesis
      by (simp add: truthy_matchesSearch lowercased_search_condition_def
          contained_lowercased_def includes_str_sublist)
  qed
qed

lemma matchesSize_size_condition: "matchesSize f p = size_condition f p"
  by (simp add: matchesSize_def size_condition_def list_ex_iff)

lemma keeps_iff: "keeps s f p = (lowercased_search_condition s p \<and> size_condition f p)"
  by (simp add: keeps_def js_and_def matchesSearch_lowercased matchesSize_size_condition)

lemma keeps_eq: "keeps s f = (\<lambda>p. lowercased_search_condition s p \<and> size_condition f p)"
  by (rule ext) (rule keeps_iff)

subsection \<open>Lower-casing of Latin-1 strings ignores exactly the case\<close>




















text \<open>The scenario of section 8 of the specification, computed by the embedded code.\<close>

lemma scenario_out_of_stock:
  "filteredProducts (Some [scenario_product]) (utf16 ''red'') (utf16 ''L'') = []"
  by code_simp

lemma scenario_no_match:
  "filteredProducts (Some [scenario_product]) (utf16 ''blue'') (utf16 ''all'') = []"
  by code_simp



subsection \<open>A term that the name contains and the filter does not find\<close>

text \<open>
  Lower-casing the term alpha, sigma ends in the final small sigma, since the sigma is the
  last letter of the term; inside the name alpha, sigma, alpha the same sigma becomes the
  plain small sigma. The lower-cased name does not contain the lower-cased term.
\<close>

lemma toLowerCase_sigma:
  "toLowerCase sigma_term = [0x3B1, 0x3C2] \<and> toLowerCase (item_name sigma_product) = [0x3B1, 0x3C3, 0x3B1]"
  by code_simp


text \<open>
  C5. For every product list, search term and size selection, the result of
  \<^verbatim>\<open>filteredProducts\<close> is a subsequence of the product list: the products kept stand
  in their original order, none twice and none moved.
\<close>

theorem filteredProducts_subseq: "subseq (filteredProducts (Some P) s f) P"
  by (simp add: filteredProducts_def)

lemma availableSizes_Nil: "availableSizes (Some []) = []"
  by (simp add: availableSizes_def collect_sizes_def)

text \<open>
  C8. \<^verbatim>\<open>filteredProducts\<close> is idempotent: filtering its own result again with the same
  search term and size selection returns that result. On the empty product list both
  \<^verbatim>\<open>filteredProducts\<close> and \<^verbatim>\<open>availableSizes\<close> return the empty list.
\<close>

theorem filteredProducts_idempotent:
  "filteredProducts (Some (filteredProducts (Some P) s f)) s f = filteredProducts (Some P) s f \<and>
   filteredProducts (Some []) s f = [] \<and> availableSizes (Some []) = []"
  by (simp add: filteredProducts_def availableSizes_Nil)

text \<open>
  C9. While the product list is absent (\<^verbatim>\<open>products\<close> is \<^verbatim>\<open>undefined\<close>, the fetch not
  yet completed), \<^verbatim>\<open>availableSizes\<close> and \<^verbatim>\<open>filteredProducts\<close> return the empty list
  for every search term and size selection.
\<close>

theorem undefined_products_empty:
  "availableSizes None = [] \<and> filteredProducts None s f = []"
  by (simp add: availableSizes_def filteredProducts_def)

text \<open>
  C10. With the empty search term and the size selection \<^verbatim>\<open>all\<close> the filter is the
  identity: \<^verbatim>\<open>filteredProducts\<close> returns the whole product list unchanged.
\<close>

theorem filteredProducts_identity: "filteredProducts (Some P) [] (utf16 ''all'') = P"
  by (simp add: filteredProducts_def keeps_eq lowercased_search_condition_def
      contained_lowercased_def size_condition_def toLowerCase_def)

subsection \<open>Available sizes\<close>

lemma distinct_set_add: "distinct acc \<Longrightarrow> distinct (set_add acc x)"
  by (simp add: set_add_def)

lemma set_set_add: "set (set_add acc x) = insert x (set acc)"
  by (auto simp: set_add_def)

lemma distinct_add_size: "distinct acc \<Longrightarrow> distinct (add_size acc e)"
  by (simp add: add_size_def distinct_set_add)

lemma set_add_size:
  "set (add_size acc e) = (if count e > 0 then insert (size_label e) (set acc) else set acc)"
  by (simp add: add_size_def set_set_add)

lemma distinct_foldl_add_size: "distinct acc \<Longrightarrow> distinct (foldl add_size acc es)"
  by (induction es arbitrary: acc) (simp_all add: distinct_add_size)

lemma set_foldl_add_size:
  "set (foldl add_size acc es) = set acc \<union> {size_label e | e. e \<in> set es \<and> count e > 0}"
  by (induction es arbitrary: acc) (auto simp: set_add_size)

lemma distinct_foldl_add_product: "distinct acc \<Longrightarrow> distinct (foldl add_product acc P)"
  by (induction P arbitrary: acc) (simp_all add: add_product_def distinct_foldl_add_size)

lemma set_foldl_add_product: "set (foldl add_product acc P) = set acc \<union> in_stock_labels P"
  by (induction P arbitrary: acc)
    (auto simp: add_product_def set_foldl_add_size in_stock_labels_def)

lemma distinct_collect_sizes: "distinct (collect_sizes P)"
  by (simp add: collect_sizes_def distinct_foldl_add_product)

lemma set_collect_sizes: "set (collect_sizes P) = in_stock_labels P"
  by (simp add: collect_sizes_def set_foldl_add_product)

text \<open>
  C4. For every product list, \<^verbatim>\<open>availableSizes\<close> is sorted in ascending lexicographic
  order and free of duplicates, its elements are exactly the size labels that have a
  positive count in some product of the list, and a label whose count is zero in every
  product does not occur in it.
\<close>

theorem availableSizes_sorted_union:
  "sorted (availableSizes (Some P)) \<and> distinct (availableSizes (Some P)) \<and>
   set (availableSizes (Some P)) =
     {size_label e | p e. p \<in> set P \<and> e \<in> set (sizes p) \<and> count e > 0} \<and>
   ((\<forall>p \<in> set P. \<forall>e \<in> set (sizes p). size_label e = l \<longrightarrow> count e = 0) \<longrightarrow>
      l \<notin> set (availableSizes (Some P)))"
proof -
  have s: "set (availableSizes (Some P)) = in_stock_labels P"
    by (simp add: availableSizes_def set_collect_sizes)
  have "sorted (availableSizes (Some P))"
    by (simp add: availableSizes_def)
  moreover have "distinct (availableSizes (Some P))"
    by (simp add: availableSizes_def distinct_collect_sizes)
  moreover have "(\<forall>p \<in> set P. \<forall>e \<in> set (sizes p). size_label e = l \<longrightarrow> count e = 0) \<longrightarrow>
      l \<notin> set (availableSizes (Some P))"
    unfolding s in_stock_labels_def by fastforce
  ultimately show ?thesis
    using s by (simp add: in_stock_labels_def)
qed

theorem availableSizes_sorted_union_witness:
  "availableSizes (Some [scenario_product]) = [utf16 ''M''] \<and>
   utf16 ''L'' \<notin> set (availableSizes (Some [scenario_product]))"
proof -
  have a: "availableSizes (Some [scenario_product]) = [utf16 ''M'']" by code_simp
  have "\<forall>p \<in> set [scenario_product]. \<forall>e \<in> set (sizes p). size_label e = utf16 ''L'' \<longrightarrow> count e = 0"
    by (simp add: scenario_product_def utf16_def)
  with availableSizes_sorted_union [of "[scenario_product]" "utf16 ''L''"]
  have "utf16 ''L'' \<notin> set (availableSizes (Some [scenario_product]))" by blast
  with a show ?thesis by simp
qed

section \<open>Properties of the store and of the error toast\<close>

subsection \<open>Field updates of the protocol steps\<close>

lemma attempt_fields [simp]:
  "snapshot (attempt d rest st) = snapshot st"
  "fetchedAt (attempt d rest st) = fetchedAt st"
  "status (attempt d rest st) = status st"
  "failure (attempt d rest st) = failure st"
  "clock (attempt d rest st) = clock st + d"
  "network (attempt d rest st) = rest"
  "attempts (attempt d rest st) = attempts st @ [clock st]"
  "fetches (attempt d rest st) = fetches st"
  by (simp_all add: attempt_def)

lemma wait_fields [simp]:
  "snapshot (wait d st) = snapshot st"
  "fetchedAt (wait d st) = fetchedAt st"
  "status (wait d st) = status st"
  "failure (wait d st) = failure st"
  "clock (wait d st) = clock st + d"
  "network (wait d st) = network st"
  "attempts (wait d st) = attempts st"
  "fetches (wait d st) = fetches st"
  by (simp_all add: wait_def)

lemma on_success_fields [simp]:
  "snapshot (on_success ps st) = Some ps"
  "fetchedAt (on_success ps st) = clock st"
  "status (on_success ps st) = Success"
  "failure (on_success ps st) = None"
  "clock (on_success ps st) = clock st"
  "network (on_success ps st) = network st"
  "attempts (on_success ps st) = attempts st"
  "fetches (on_success ps st) = fetches st"
  by (simp_all add: on_success_def)

lemma on_failure_fields [simp]:
  "snapshot (on_failure e st) = snapshot st"
  "fetchedAt (on_failure e st) = fetchedAt st"
  "status (on_failure e st) = Error"
  "failure (on_failure e st) = Some e"
  "clock (on_failure e st) = clock st"
  "network (on_failure e st) = network st"
  "attempts (on_failure e st) = attempts st"
  "fetches (on_failure e st) = fetches st"
  by (simp_all add: on_failure_def)

subsection \<open>The retry loop\<close>

lemma fetches_run_attempts: "fetches (run_attempts r st) = fetches st"
  by (induction r st rule: run_attempts.induct)
    (auto split: list.splits prod.splits outcome.splits)

lemma run_attempts_Success:
  "status st \<noteq> Success \<Longrightarrow> status (run_attempts r st) = Success \<Longrightarrow>
     snapshot (run_attempts r st) \<noteq> None \<and> fetchedAt (run_attempts r st) = clock (run_attempts r st)"
  by (induction r st rule: run_attempts.induct)
    (auto split: list.splits prod.splits outcome.splits)

lemma run_attempts_retains:
  "status st \<noteq> Success \<Longrightarrow> status (run_attempts r st) \<noteq> Success \<Longrightarrow>
     snapshot (run_attempts r st) = snapshot st \<and> fetchedAt (run_attempts r st) = fetchedAt st"
  by (induction r st rule: run_attempts.induct)
    (auto split: list.splits prod.splits outcome.splits)

text \<open>The fetch time never runs ahead of the clock, so the age of a snapshot is a difference of naturals that does not truncate.\<close>

lemma run_attempts_stamp:
  "fetchedAt st \<le> clock st \<Longrightarrow> fetchedAt (run_attempts r st) \<le> clock (run_attempts r st)"
  by (induction r st rule: run_attempts.induct)
    (auto split: list.splits prod.splits outcome.splits)

lemma load_stamp: "fetchedAt st \<le> clock st \<Longrightarrow> fetchedAt (load st) \<le> clock (load st)"
  by (auto simp: load_def fetch_def split: option.splits intro!: run_attempts_stamp)

lemma fetches_fetch: "fetches (fetch st) = Suc (fetches st)"
  by (simp add: fetch_def fetches_run_attempts)

lemma fetch_Success:
  "status (fetch st) = Success \<Longrightarrow>
     snapshot (fetch st) \<noteq> None \<and> fetchedAt (fetch st) = clock (fetch st)"
  unfolding fetch_def by (rule run_attempts_Success) simp_all

lemma fetch_retains:
  "status (fetch st) \<noteq> Success \<Longrightarrow>
     snapshot (fetch st) = snapshot st \<and> fetchedAt (fetch st) = fetchedAt st"
  using run_attempts_retains [of "st\<lparr>status := Loading, fetches := Suc (fetches st)\<rparr>" retry]
  by (simp add: fetch_def)

lemma load_cases: "load st = st \<or> load st = fetch st"
  by (simp add: load_def split: option.splits)

lemma load_fresh: "snapshot st = Some ps \<Longrightarrow> age st < staleTime \<Longrightarrow> load st = st"
  by (simp add: load_def)

lemma load_stale: "staleTime \<le> age st \<Longrightarrow> load st = fetch st"
  by (simp add: load_def split: option.splits)

lemma fetched_load:
  assumes "fetches (load st) = Suc (fetches st)"
  shows "load st = fetch st"
  using load_cases [of st] assms by auto

text \<open>
  C6. The staleness threshold is 300 seconds. When a snapshot exists and its age is below
  the threshold, \<^verbatim>\<open>load\<close> returns it without fetching: the store is unchanged. After a
  \<^verbatim>\<open>load\<close> that fetched with success, a second \<^verbatim>\<open>load\<close> less than 300 seconds later
  performs no further fetch, so the two calls perform exactly one; a \<^verbatim>\<open>load\<close> 300
  seconds later or more performs the second fetch.
\<close>

theorem load_within_stale_window:
  "staleTime = 300 * 1000 \<and>
   (snapshot st = Some ps \<and> age st < staleTime \<longrightarrow> load st = st) \<and>
   (fetches (load st) = Suc (fetches st) \<and> status (load st) = Success \<longrightarrow>
      (dt < staleTime \<longrightarrow>
         load (wait dt (load st)) = wait dt (load st) \<and>
         fetches (load (wait dt (load st))) = Suc (fetches st)) \<and>
      (staleTime \<le> dt \<longrightarrow>
         fetches (load (wait dt (load st))) = Suc (Suc (fetches st))))"
proof -
  have "staleTime = 300 * 1000" by (simp add: staleTime_def)
  moreover have "snapshot st = Some ps \<and> age st < staleTime \<longrightarrow> load st = st"
    by (simp add: load_fresh)
  moreover have "dt < staleTime \<longrightarrow>
         load (wait dt (load st)) = wait dt (load st) \<and>
         fetches (load (wait dt (load st))) = Suc (fetches st)"
    if f: "fetches (load st) = Suc (fetches st)" and s: "status (load st) = Success"
  proof
    assume dt: "dt < staleTime"
    from f have l: "load st = fetch st" by (rule fetched_load)
    with s have "status (fetch st) = Success" by simp
    from fetch_Success [OF this] l
    obtain ps' where sn: "snapshot (load st) = Some ps'" and at: "fetchedAt (load st) = clock (load st)"
      by auto
    have "age (wait dt (load st)) = dt" by (simp add: age_def at)
    with dt sn have "load (wait dt (load st)) = wait dt (load st)"
      by (simp add: load_fresh)
    with f show "load (wait dt (load st)) = wait dt (load st) \<and>
         fetches (load (wait dt (load st))) = Suc (fetches st)" by simp
  qed
  moreover have "staleTime \<le> dt \<longrightarrow> fetches (load (wait dt (load st))) = Suc (Suc (fetches st))"
    if f: "fetches (load st) = Suc (fetches st)" and s: "status (load st) = Success"
  proof
    assume dt: "staleTime \<le> dt"
    from f have l: "load st = fetch st" by (rule fetched_load)
    with s have "status (fetch st) = Success" by simp
    from fetch_Success [OF this] l
    have at: "fetchedAt (load st) = clock (load st)" by auto
    have "age (wait dt (load st)) = dt" by (simp add: age_def at)
    with dt have "load (wait dt (load st)) = fetch (wait dt (load st))"
      by (simp add: load_stale)
    with f show "fetches (load (wait dt (load st))) = Suc (Suc (fetches st))"
      by (simp add: fetches_fetch)
  qed
  ultimately show ?thesis by blast
qed



text \<open>
  C7. A refresh that ends in status \<^verbatim>\<open>Error\<close>, by \<^verbatim>\<open>refetch\<close> or by \<^verbatim>\<open>load\<close>,
  leaves the snapshot and the time of its fetch as they were, whether the snapshot is
  absent, fresh or stale; a refresh whose attempt and retry both fail ends so, with the
  last failure beside the retained snapshot.
\<close>

theorem failed_fetch_retains_snapshot:
  "(status (refetch st) = Error \<longrightarrow>
      snapshot (refetch st) = snapshot st \<and> fetchedAt (refetch st) = fetchedAt st) \<and>
   (status (load st) = Error \<longrightarrow>
      snapshot (load st) = snapshot st \<and> fetchedAt (load st) = fetchedAt st) \<and>
   (network st = (d1, Rejected e1) # (d2, Rejected e2) # rest \<longrightarrow>
      status (refetch st) = Error \<and> failure (refetch st) = Some e2 \<and>
      snapshot (refetch st) = snapshot st \<and> fetchedAt (refetch st) = fetchedAt st)"
proof -
  have a: "status (fetch st) = Error \<longrightarrow>
      snapshot (fetch st) = snapshot st \<and> fetchedAt (fetch st) = fetchedAt st"
    using fetch_retains [of st] by simp
  have b: "status (load st) = Error \<longrightarrow>
      snapshot (load st) = snapshot st \<and> fetchedAt (load st) = fetchedAt st"
    using load_cases [of st] a by auto
  have c: "network st = (d1, Rejected e1) # (d2, Rejected e2) # rest \<longrightarrow>
      status (fetch st) = Error \<and> failure (fetch st) = Some e2 \<and>
      snapshot (fetch st) = snapshot st \<and> fetchedAt (fetch st) = fetchedAt st"
    by (simp add: fetch_def retry_def)
  from a b c show ?thesis by (simp add: refetch_def)
qed

lemma load_two_catalogues:
  "load two_catalogues =
     \<lparr>snapshot = Some [scenario_product], fetchedAt = 120, status = Success, failure = None,
      clock = 120, network = [(80, Resolved [])], attempts = [0], fetches = 1\<rparr>"
  by (simp add: two_catalogues_def initial_store_def load_def fetch_def retry_def
      attempt_def on_success_def)

theorem load_within_stale_window_witness:
  "fetches (load two_catalogues) = 1 \<and> status (load two_catalogues) = Success \<and>
   load (load two_catalogues) = load two_catalogues \<and>
   fetches (load (wait 299999 (load two_catalogues))) = 1 \<and>
   fetches (load (wait 300000 (load two_catalogues))) = 2"
proof -
  have f: "fetches (load two_catalogues) = Suc (fetches two_catalogues)"
    by (simp add: load_two_catalogues) (simp add: two_catalogues_def initial_store_def)
  have s: "status (load two_catalogues) = Success"
    by (simp add: load_two_catalogues)
  have z: "fetches two_catalogues = 0"
    by (simp add: two_catalogues_def initial_store_def)
  have fresh: "snapshot (load two_catalogues) = Some [scenario_product] \<and>
      age (load two_catalogues) < staleTime"
    by (simp add: load_two_catalogues age_def staleTime_def)
  have "(299999::nat) < staleTime" and "staleTime \<le> (300000::nat)"
    by (simp_all add: staleTime_def)
  with f s z fresh
    load_within_stale_window [of "load two_catalogues" "[scenario_product]" 0]
    load_within_stale_window [of two_catalogues "[]" 299999]
    load_within_stale_window [of two_catalogues "[]" 300000]
  show ?thesis by simp
qed

theorem failed_fetch_retains_snapshot_witness:
  "status (refetch (load two_catalogues\<lparr>network := [(7, Rejected (NotAnError 0)),
       (9, Rejected (ErrorInstance 1 ''offline''))]\<rparr>)) = Error \<and>
   snapshot (refetch (load two_catalogues\<lparr>network := [(7, Rejected (NotAnError 0)),
       (9, Rejected (ErrorInstance 1 ''offline''))]\<rparr>)) = Some [scenario_product] \<and>
   fetchedAt (refetch (load two_catalogues\<lparr>network := [(7, Rejected (NotAnError 0)),
       (9, Rejected (ErrorInstance 1 ''offline''))]\<rparr>)) = 120"
  using failed_fetch_retains_snapshot [of "load two_catalogues\<lparr>network :=
      [(7, Rejected (NotAnError 0)), (9, Rejected (ErrorInstance 1 ''offline''))]\<rparr>"
      7 "NotAnError 0" 9 "ErrorInstance 1 ''offline''" "[]"]
  by (simp add: load_two_catalogues)

subsection \<open>Retry and notification\<close>

lemma fetch_two_attempts:
  assumes "network st = (d1, Rejected e1) # (d2, r2) # rest"
  shows "attempts (fetch st) = attempts st @ [clock st, clock st + d1 + retryDelay]"
    and "network (fetch st) = rest"
    and "clock (fetch st) = clock st + d1 + retryDelay + d2"
  using assms by (cases r2; simp add: fetch_def retry_def)+

lemma fetch_retry_Resolved:
  assumes "network st = (d1, Rejected e1) # (d2, Resolved ps) # rest"
  shows "status (fetch st) = Success" and "snapshot (fetch st) = Some ps"
    and "failure (fetch st) = None"
  using assms by (simp_all add: fetch_def retry_def)

lemma fetch_retry_Rejected:
  assumes "network st = (d1, Rejected e1) # (d2, Rejected e2) # rest"
  shows "status (fetch st) = Error" and "failure (fetch st) = Some e2"
  using assms by (simp_all add: fetch_def retry_def)

lemma toasts_render_not_error: "toasts (render False e u) = toasts u"
  by (simp add: render_def)

lemma toasts_render_NotAnError: "toasts (render b (Some (NotAnError v)) u) = toasts u"
  by (cases b) (simp_all add: render_def)

lemma toasts_render_ErrorInstance:
  "effect_deps u \<noteq> Some (True, Some (ErrorInstance i msg)) \<Longrightarrow>
     toasts (render True (Some (ErrorInstance i msg)) u) = toasts u @ [''Shop error: '' @ msg]"
  by (simp add: render_def toast_error_def)

lemma render_twice: "render b e (render b e u) = render b e u"
  by (simp add: render_def)

text \<open>
  C3, as amended. When the first attempt of a fetch fails, the store waits 1000 ms and
  makes exactly one more attempt. If the second attempt succeeds the run ends in status
  \<^verbatim>\<open>Success\<close> with the data of the second attempt, and no toast is shown. If it fails
  too the run ends in status \<^verbatim>\<open>Error\<close> after exactly two attempts; the next render of
  a mounted component whose effect has not yet seen this failure then shows exactly one
  toast, with the message of the failure, when the failure is an instance of
  \<^verbatim>\<open>Error\<close>, and none when it is another value.
\<close>

theorem retry_once_after_fixed_delay:
  "network st = (d1, Rejected e1) # (d2, r2) # rest \<Longrightarrow>
     retryDelay = 1000 \<and>
     attempts (refetch st) = attempts st @ [clock st, clock st + d1 + 1000] \<and>
     network (refetch st) = rest \<and>
     (case r2 of
        Resolved ps \<Rightarrow>
          status (refetch st) = Success \<and> snapshot (refetch st) = Some ps \<and>
          toasts (render_store (refetch st) u) = toasts u
      | Rejected e2 \<Rightarrow>
          status (refetch st) = Error \<and> failure (refetch st) = Some e2 \<and>
          (case e2 of
             ErrorInstance i msg \<Rightarrow>
               effect_deps u \<noteq> Some (True, Some e2) \<longrightarrow>
                 toasts (render_store (refetch st) u) = toasts u @ [''Shop error: '' @ msg]
           | NotAnError v \<Rightarrow> toasts (render_store (refetch st) u) = toasts u))"
proof -
  assume n: "network st = (d1, Rejected e1) # (d2, r2) # rest"
  have d: "retryDelay = 1000" by (simp add: retryDelay_def)
  have a: "attempts (refetch st) = attempts st @ [clock st, clock st + d1 + 1000]"
    using fetch_two_attempts(1) [OF n] by (simp add: refetch_def retryDelay_def)
  have r: "network (refetch st) = rest"
    using fetch_two_attempts(2) [OF n] by (simp add: refetch_def)
  have o: "(case r2 of
        Resolved ps \<Rightarrow>
          status (refetch st) = Success \<and> snapshot (refetch st) = Some ps \<and>
          toasts (render_store (refetch st) u) = toasts u
      | Rejected e2 \<Rightarrow>
          status (refetch st) = Error \<and> failure (refetch st) = Some e2 \<and>
          (case e2 of
             ErrorInstance i msg \<Rightarrow>
               effect_deps u \<noteq> Some (True, Some e2) \<longrightarrow>
                 toasts (render_store (refetch st) u) = toasts u @ [''Shop error: '' @ msg]
           | NotAnError v \<Rightarrow> toasts (render_store (refetch st) u) = toasts u))"
  proof (cases r2)
    case (Resolved ps)
    with n have "network st = (d1, Rejected e1) # (d2, Resolved ps) # rest" by simp
    from fetch_retry_Resolved [OF this] Resolved show ?thesis
      by (simp add: refetch_def render_store_def isError_def toasts_render_not_error)
  next
    case (Rejected e2)
    with n have "network st = (d1, Rejected e1) # (d2, Rejected e2) # rest" by simp
    from fetch_retry_Rejected [OF this] Rejected show ?thesis
      by (cases e2)
        (simp_all add: refetch_def render_store_def isError_def toasts_render_NotAnError
          toasts_render_ErrorInstance)
  qed
  from d a r o show ?thesis by simp
qed




theorem retry_once_after_fixed_delay_witness:
  "attempts (refetch flaky_store) = [0, 1030] \<and> status (refetch flaky_store) = Success \<and>
   snapshot (refetch flaky_store) = Some [scenario_product] \<and>
   attempts (refetch offline_store) = [0, 1030] \<and> status (refetch offline_store) = Error \<and>
   toasts (render_store (refetch offline_store) (render_store offline_store (mount []))) =
     [''Shop error: offline'']"
proof -
  have "network flaky_store =
      (30, Rejected (ErrorInstance 0 ''timeout'')) # (50, Resolved [scenario_product]) # []"
    by (simp add: flaky_store_def initial_store_def)
  from retry_once_after_fixed_delay [OF this, of "mount []"]
  have a: "attempts (refetch flaky_store) = [0, 1030] \<and> status (refetch flaky_store) = Success \<and>
      snapshot (refetch flaky_store) = Some [scenario_product]"
    by (simp add: flaky_store_def initial_store_def)
  have "network offline_store =
      (30, Rejected (ErrorInstance 0 ''timeout'')) # (50, Rejected (ErrorInstance 1 ''offline'')) # []"
    by (simp add: offline_store_def initial_store_def)
  from retry_once_after_fixed_delay [OF this, of "render_store offline_store (mount [])"]
  have b: "attempts (refetch offline_store) = [0, 1030] \<and> status (refetch offline_store) = Error \<and>
      toasts (render_store (refetch offline_store) (render_store offline_store (mount []))) =
        [''Shop error: offline'']"
    by (simp add: offline_store_def initial_store_def render_store_def isError_def render_def
        mount_def toast_error_def)
  from a b show ?thesis by simp
qed

text \<open>
  C3 as stated fails where the fetch rejects twice with a value that is not an instance of
  \<^verbatim>\<open>Error\<close>: the run ends in status \<^verbatim>\<open>Error\<close> after two attempts, and the
  component, rendered before and after, has shown no toast.
\<close>

theorem two_failures_without_toast:
  "status (refetch rejecting_store) = Error \<and>
   attempts (refetch rejecting_store) = [0, 1030] \<and>
   toasts (render_store (refetch rejecting_store) (render_store rejecting_store (mount []))) = []"
  by (simp add: rejecting_store_def initial_store_def refetch_def fetch_def retry_def
      retryDelay_def attempt_def wait_def on_failure_def render_store_def isError_def
      render_def mount_def)


text \<open>
  C2 as stated fails at a remount: a component that has shown the toast for a failure, is
  unmounted and is mounted again while the query is in the same \<^verbatim>\<open>Error\<close> status,
  with the same error object, shows the toast a second time.
\<close>

theorem remount_notifies_again:
  "toasts (render True (Some timeout_error) (mount [])) = [''Shop error: timeout''] \<and>
   toasts (render True (Some timeout_error)
      (unmount (render True (Some timeout_error) (mount [])))) =
     [''Shop error: timeout'', ''Shop error: timeout'']"
  by (simp add: timeout_error_def render_def mount_def unmount_def toast_error_def)

text \<open>
  C2, as amended. Within one mounted component a render with the same \<^verbatim>\<open>isError\<close> and
  \<^verbatim>\<open>error\<close> as the render before shows no further toast. A render in which the query
  is in error with an instance of \<^verbatim>\<open>Error\<close> that the effect has not seen in the
  render before shows exactly one toast, \<^verbatim>\<open>Shop error: \<close> followed by the message of
  the failure; so does the first render after a remount, also when the status was
  \<^verbatim>\<open>Error\<close> before. A failure that is not an instance of \<^verbatim>\<open>Error\<close>, and a query
  that is not in error, show none.
\<close>

theorem error_toast_on_dependency_change:
  "toasts (render b e (render b e u)) = toasts (render b e u) \<and>
   (effect_deps u \<noteq> Some (True, Some (ErrorInstance i msg)) \<longrightarrow>
      toasts (render True (Some (ErrorInstance i msg)) u) = toasts u @ [''Shop error: '' @ msg]) \<and>
   toasts (render True (Some (ErrorInstance i msg)) (unmount u)) =
     toasts u @ [''Shop error: '' @ msg] \<and>
   toasts (render True (Some (NotAnError v)) u) = toasts u \<and>
   toasts (render False e u) = toasts u"
proof -
  have "effect_deps (unmount u) \<noteq> Some (True, Some (ErrorInstance i msg))"
    by (simp add: unmount_def mount_def)
  from toasts_render_ErrorInstance [OF this]
  have "toasts (render True (Some (ErrorInstance i msg)) (unmount u)) =
     toasts u @ [''Shop error: '' @ msg]"
    by (simp add: unmount_def mount_def)
  then show ?thesis
    by (simp add: render_twice toasts_render_ErrorInstance toasts_render_NotAnError
        toasts_render_not_error)
qed

theorem error_toast_on_dependency_change_witness:
  "toasts (render True (Some timeout_error) (render False None (mount []))) =
     [''Shop error: timeout'']"
proof -
  have "effect_deps (render False None (mount [])) \<noteq> Some (True, Some (ErrorInstance 0 ''timeout''))"
    by (simp add: render_def mount_def)
  with error_toast_on_dependency_change
    [of True "Some timeout_error" "render False None (mount [])" 0 "''timeout''" 0]
  show ?thesis by (simp add: timeout_error_def render_def mount_def)
qed

end
